theory Spec2Isabelle
  imports Complex_Main
begin

section \<open>The persisted tables\<close>

text \<open>
  The tables of the migration (\<^verbatim>\<open>CREATE TABLE public.trips\<close>, \<^verbatim>\<open>public.gps_updates\<close>,
  \<^verbatim>\<open>public.buses\<close>, \<^verbatim>\<open>public.routes\<close>, \<^verbatim>\<open>public.profiles\<close>), with the columns the tracking code
  reads or writes. Identifiers are the UUID strings of the client code, instants are
  milliseconds on the server clock, and a coordinate is the real number that the decimal
  text of a JavaScript \<^verbatim>\<open>number\<close> denotes: the text is what the client sends and what a
  column rounds.
\<close>

type_synonym uuid = string

datatype trip_status = active | completed | cancelled

record bus_row =
  b_id :: uuid
  b_bus_number :: string
  b_is_active :: bool

record route_row =
  r_id :: uuid
  r_name :: string
  r_is_active :: bool

record trip_row =
  t_id :: uuid
  t_bus_id :: uuid
  t_route_id :: uuid
  t_driver_id :: uuid
  t_status :: trip_status
  t_started_at :: nat
  t_completed_at :: "nat option"

record gps_row =
  g_id :: uuid
  g_trip_id :: uuid
  g_latitude :: real
  g_longitude :: real
  g_speed :: "real option"
  g_heading :: "real option"
  g_accuracy :: "real option"
  g_created_at :: nat

record database =
  profiles :: "uuid list"
  buses :: "bus_row list"
  routes :: "route_row list"
  trips :: "trip_row list"
  gps_updates :: "gps_row list"

text \<open>
  What a request sees of the world outside the component: whether it reaches the
  backend, the identity of the session (\<^verbatim>\<open>supabase.auth.getUser()\<close> on the client,
  \<^verbatim>\<open>auth.uid()\<close> in the policies), whether the browser has \<^verbatim>\<open>navigator.geolocation\<close>, the
  value of \<^verbatim>\<open>NOW()\<close>, of the client's \<^verbatim>\<open>new Date()\<close> and of \<^verbatim>\<open>gen_random_uuid()\<close>.
\<close>

record env =
  online :: bool
  auth_uid :: "uuid option"
  has_geolocation :: bool
  now :: nat
  client_now :: nat
  fresh_id :: uuid

datatype db_error =
  network_error | rls_violation | foreign_key_violation | unique_violation | numeric_overflow

definition getUser :: "env \<Rightarrow> uuid option" where
  "getUser e = (if online e then auth_uid e else None)"

section \<open>BusMap: the passengers' view of bus locations\<close>

record BusLocation =
  bl_id :: uuid
  bl_bus_number :: string
  bl_latitude :: real
  bl_longitude :: real
  bl_trip_id :: uuid
  bl_route_name :: string

text \<open>\<^verbatim>\<open>prev.findIndex((loc) => loc.id === newLocation.id)\<close>: the first index whose entry
  has the identifier, \<open>None\<close> for JavaScript's \<open>-1\<close>.\<close>

fun findIndex :: "('a \<Rightarrow> bool) \<Rightarrow> 'a list \<Rightarrow> nat option" where
  "findIndex P [] = None"
| "findIndex P (x # xs) =
     (if P x then Some 0 else (case findIndex P xs of None \<Rightarrow> None | Some i \<Rightarrow> Some (Suc i)))"

text \<open>The updater passed to \<^verbatim>\<open>setBusLocations\<close>: replace the existing entry or add a new one.\<close>

definition setBusLocations_updater :: "BusLocation \<Rightarrow> BusLocation list \<Rightarrow> BusLocation list" where
  "setBusLocations_updater newLocation prev =
     (case findIndex (\<lambda>loc. bl_id loc = bl_id newLocation) prev of
        Some index \<Rightarrow> prev[index := newLocation]
      | None \<Rightarrow> prev @ [newLocation])"

text \<open>\<^verbatim>\<open>x || fallback\<close> on an optional string: null, undefined and the empty string give
  the fallback.\<close>

definition or_else :: "string option \<Rightarrow> string \<Rightarrow> string" where
  "or_else x fallback = (case x of None \<Rightarrow> fallback | Some s \<Rightarrow> if s = [] then fallback else s)"

text \<open>\<^verbatim>\<open>.single()\<close>: the one row of the answer, an error when there is none or several.\<close>

definition single :: "'a list \<Rightarrow> 'a option" where
  "single rows = (case rows of [x] \<Rightarrow> Some x | _ \<Rightarrow> None)"

text \<open>The embedded resources \<^verbatim>\<open>buses (bus_number)\<close> and \<^verbatim>\<open>routes (name)\<close> of a trip. The
  select policies of both tables show active rows only, so the join of an inactive bus or
  route is null.\<close>

definition trip_bus_number :: "database \<Rightarrow> trip_row \<Rightarrow> string option" where
  "trip_bus_number db t =
     map_option b_bus_number (find (\<lambda>b. b_id b = t_bus_id t \<and> b_is_active b) (buses db))"

definition trip_route_name :: "database \<Rightarrow> trip_row \<Rightarrow> string option" where
  "trip_route_name db t =
     map_option r_name (find (\<lambda>r. r_id r = t_route_id t \<and> r_is_active r) (routes db))"

text \<open>\<^verbatim>\<open>supabase.from('trips').select(...).eq('id', id).single()\<close>; the select policy of
  trips is \<^verbatim>\<open>USING (true)\<close>.\<close>

definition select_trip :: "env \<Rightarrow> database \<Rightarrow> uuid \<Rightarrow> trip_row option" where
  "select_trip e db tid =
     (if online e then single (filter (\<lambda>t. t_id t = tid) (trips db)) else None)"

definition newLocation :: "database \<Rightarrow> trip_row \<Rightarrow> gps_row \<Rightarrow> BusLocation" where
  "newLocation db tripData payload =
     \<lparr>bl_id = g_trip_id payload,
      bl_bus_number = or_else (trip_bus_number db tripData) ''Unknown'',
      bl_latitude = g_latitude payload,
      bl_longitude = g_longitude payload,
      bl_trip_id = g_trip_id payload,
      bl_route_name = or_else (trip_route_name db tripData) ''Unknown Route''\<rparr>"

text \<open>The handler of the \<^verbatim>\<open>gps-updates\<close> channel, for one inserted row \<^verbatim>\<open>payload.new\<close>.\<close>

definition gps_handler ::
  "env \<Rightarrow> database \<Rightarrow> gps_row \<Rightarrow> BusLocation list \<Rightarrow> BusLocation list" where
  "gps_handler e db payload prev =
     (case select_trip e db (g_trip_id payload) of
        None \<Rightarrow> prev
      | Some tripData \<Rightarrow> setBusLocations_updater (newLocation db tripData payload) prev)"



text \<open>\<^verbatim>\<open>.order('created_at', { ascending: false }).limit(1).single()\<close> over the rows of one
  trip: a row with the greatest \<^verbatim>\<open>created_at\<close> (among equal instants, the one stored first).\<close>

fun newest :: "gps_row list \<Rightarrow> gps_row option" where
  "newest [] = None"
| "newest (g # gs) =
     (case newest gs of
        None \<Rightarrow> Some g
      | Some h \<Rightarrow> if g_created_at h > g_created_at g then Some h else Some g)"

definition latest_gps :: "database \<Rightarrow> uuid \<Rightarrow> gps_row option" where
  "latest_gps db tid = newest (filter (\<lambda>g. g_trip_id g = tid) (gps_updates db))"

text \<open>The loop of \<^verbatim>\<open>fetchBusLocations\<close> over the active trips: a trip without GPS data is
  skipped.\<close>

fun collect_locations :: "database \<Rightarrow> trip_row list \<Rightarrow> BusLocation list" where
  "collect_locations db [] = []"
| "collect_locations db (trip # rest) =
     (case latest_gps db (t_id trip) of
        None \<Rightarrow> collect_locations db rest
      | Some gpsData \<Rightarrow>
          \<lparr>bl_id = t_id trip,
           bl_bus_number = or_else (trip_bus_number db trip) ''Unknown'',
           bl_latitude = g_latitude gpsData,
           bl_longitude = g_longitude gpsData,
           bl_trip_id = t_id trip,
           bl_route_name = or_else (trip_route_name db trip) ''Unknown Route''\<rparr>
          # collect_locations db rest)"

text \<open>\<^verbatim>\<open>fetchBusLocations\<close>: the view is left as it is when the query fails or finds no
  active trip, and is replaced by the collected locations otherwise.\<close>

definition fetchBusLocations :: "env \<Rightarrow> database \<Rightarrow> BusLocation list \<Rightarrow> BusLocation list" where
  "fetchBusLocations e db prev =
     (if \<not> online e then prev
      else (case filter (\<lambda>t. t_status t = active) (trips db) of
              [] \<Rightarrow> prev
            | ts \<Rightarrow> collect_locations db ts))"

text \<open>The change feed of the backend (\<^verbatim>\<open>supabase_realtime\<close> publishes both tables): an
  inserted GPS row, or a trip row as it is after an insert or update.\<close>

datatype change = gps_insert gps_row | trips_change trip_row

text \<open>BusMap subscribes to one channel: \<^verbatim>\<open>event: 'INSERT'\<close> on \<^verbatim>\<open>table: 'gps_updates'\<close>.\<close>

fun busmap_on_change ::
  "env \<Rightarrow> database \<Rightarrow> change \<Rightarrow> BusLocation list \<Rightarrow> BusLocation list" where
  "busmap_on_change e db (gps_insert payload) view = gps_handler e db payload view"
| "busmap_on_change e db (trips_change t) view = view"

section \<open>PassengerDashboard: the list of active buses of a route\<close>

record ActiveBus =
  ab_bus_number :: string
  ab_route_name :: string
  ab_trip_id :: uuid

definition fetchActiveBuses :: "env \<Rightarrow> database \<Rightarrow> uuid \<Rightarrow> ActiveBus list \<Rightarrow> ActiveBus list" where
  "fetchActiveBuses e db selectedRoute prev =
     (if \<not> online e then prev
      else map (\<lambda>trip. \<lparr>ab_bus_number = or_else (trip_bus_number db trip) ''Unknown'',
                        ab_route_name = or_else (trip_route_name db trip) ''Unknown Route'',
                        ab_trip_id = t_id trip\<rparr>)
             (filter (\<lambda>t. t_route_id t = selectedRoute \<and> t_status t = active) (trips db)))"

text \<open>The channel \<^verbatim>\<open>route-trips-${selectedRoute}\<close>, which exists while a route is selected:
  every change of a trip row of the selected route refetches the list.\<close>

fun passenger_on_change ::
  "env \<Rightarrow> database \<Rightarrow> uuid \<Rightarrow> change \<Rightarrow> ActiveBus list \<Rightarrow> ActiveBus list" where
  "passenger_on_change e db selectedRoute (trips_change t) buses_list =
     (if selectedRoute \<noteq> [] \<and> t_route_id t = selectedRoute
      then fetchActiveBuses e db selectedRoute buses_list
      else buses_list)"
| "passenger_on_change e db selectedRoute (gps_insert payload) buses_list = buses_list"

section \<open>Writes to the tables\<close>

text \<open>
  A \<^verbatim>\<open>NUMERIC(p, s)\<close> column rounds a value to \<open>s\<close> decimal places, half away from zero,
  and refuses it (numeric field overflow) unless the rounded value is below
  \<open>10 ^ (p - s)\<close> in magnitude.
\<close>

definition pg_round :: "nat \<Rightarrow> real \<Rightarrow> real" where
  "pg_round s x =
     (if x < 0 then - real_of_int \<lfloor>- x * 10 ^ s + 1 / 2\<rfloor> else real_of_int \<lfloor>x * 10 ^ s + 1 / 2\<rfloor>)
       / 10 ^ s"

definition numeric_fits :: "nat \<Rightarrow> nat \<Rightarrow> real \<Rightarrow> bool" where
  "numeric_fits p s x \<longleftrightarrow> \<bar>pg_round s x\<bar> < 10 ^ (p - s)"

text \<open>\<^verbatim>\<open>INSERT INTO trips (bus_id, route_id, driver_id, status)\<close> with the policy
  \<^verbatim>\<open>WITH CHECK (auth.uid() = driver_id)\<close>, the primary key and the three foreign keys.
  The table has no constraint on the number of active rows of a driver.\<close>

definition insert_trip ::
  "env \<Rightarrow> database \<Rightarrow> uuid \<Rightarrow> uuid \<Rightarrow> uuid \<Rightarrow> db_error + (database \<times> trip_row)" where
  "insert_trip e db bus route driver =
     (if \<not> online e then Inl network_error
      else if auth_uid e \<noteq> Some driver then Inl rls_violation
      else if fresh_id e \<in> t_id ` set (trips db) then Inl unique_violation
      else if bus \<notin> b_id ` set (buses db) \<or> route \<notin> r_id ` set (routes db)
                \<or> driver \<notin> set (profiles db) then Inl foreign_key_violation
      else (let row = \<lparr>t_id = fresh_id e, t_bus_id = bus, t_route_id = route,
                        t_driver_id = driver, t_status = active, t_started_at = now e,
                        t_completed_at = None\<rparr>
            in Inr (db\<lparr>trips := trips db @ [row]\<rparr>, row)))"

text \<open>\<^verbatim>\<open>UPDATE trips SET status = 'completed', completed_at = ... WHERE id = ...\<close> with the
  policy \<^verbatim>\<open>USING (auth.uid() = driver_id)\<close>: a row the policy hides is left as it is, without
  an error.\<close>

definition complete_trip :: "env \<Rightarrow> database \<Rightarrow> uuid \<Rightarrow> db_error + database" where
  "complete_trip e db tid =
     (if \<not> online e then Inl network_error
      else Inr (db\<lparr>trips :=
             map (\<lambda>t. if t_id t = tid \<and> auth_uid e = Some (t_driver_id t)
                       then t\<lparr>t_status := completed, t_completed_at := Some (client_now e)\<rparr>
                       else t) (trips db)\<rparr>))"

text \<open>\<^verbatim>\<open>INSERT INTO gps_updates\<close>: the values are first brought to the precision of their
  columns, then comes the policy "Drivers can create gps updates for own trips" (a trip with
  this id whose driver is the session's user: the status of the trip is not looked at), then
  the primary key. \<^verbatim>\<open>created_at\<close> is \<^verbatim>\<open>NOW()\<close>.\<close>

definition insert_gps ::
  "env \<Rightarrow> database \<Rightarrow> uuid \<Rightarrow> real \<Rightarrow> real \<Rightarrow> real \<Rightarrow> real \<Rightarrow> real \<Rightarrow> db_error + database" where
  "insert_gps e db tid lat lng spd hdg acc =
     (if \<not> online e then Inl network_error
      else if \<not> (numeric_fits 10 8 lat \<and> numeric_fits 11 8 lng \<and> numeric_fits 5 2 spd
                 \<and> numeric_fits 5 2 hdg \<and> numeric_fits 6 2 acc) then Inl numeric_overflow
      else if \<not> list_ex (\<lambda>t. t_id t = tid \<and> auth_uid e = Some (t_driver_id t)) (trips db)
        then Inl rls_violation
      else if fresh_id e \<in> g_id ` set (gps_updates db) then Inl unique_violation
      else Inr (db\<lparr>gps_updates := gps_updates db @
             [\<lparr>g_id = fresh_id e, g_trip_id = tid,
               g_latitude = pg_round 8 lat, g_longitude = pg_round 8 lng,
               g_speed = Some (pg_round 2 spd), g_heading = Some (pg_round 2 hdg),
               g_accuracy = Some (pg_round 2 acc), g_created_at = now e\<rparr>]\<rparr>))"

section \<open>DriverDashboard\<close>

record ActiveTrip =
  at_id :: uuid
  at_bus_number :: string
  at_route_name :: string
  at_started_at :: nat

text \<open>The state of the component. \<open>effect_cleanup\<close> is the interval that the cleanup
  function returned by the last run of the tracking effect will clear.\<close>

record DriverDashboard =
  selectedBus :: uuid
  selectedRoute :: uuid
  activeTrip :: "ActiveTrip option"
  gpsInterval :: "nat option"
  gpsUpdateCount :: nat
  effect_cleanup :: "nat option"

text \<open>What the user or the console gets to see: \<^verbatim>\<open>toast({title, description, variant})\<close>,
  with \<open>True\<close> for \<^verbatim>\<open>variant: "destructive"\<close>, and \<^verbatim>\<open>console.error\<close>.\<close>

datatype notice = toast string string bool | console_error string

definition activeTrip_of :: "database \<Rightarrow> trip_row \<Rightarrow> ActiveTrip" where
  "activeTrip_of db data =
     \<lparr>at_id = t_id data,
      at_bus_number = or_else (trip_bus_number db data) ''Unknown'',
      at_route_name = or_else (trip_route_name db data) ''Unknown'',
      at_started_at = t_started_at data\<rparr>"

text \<open>\<^verbatim>\<open>checkActiveTrip\<close>, run on mount.\<close>

definition checkActiveTrip :: "env \<Rightarrow> database \<Rightarrow> DriverDashboard \<Rightarrow> DriverDashboard" where
  "checkActiveTrip e db st =
     (case getUser e of
        None \<Rightarrow> st
      | Some user \<Rightarrow>
          (case single (filter (\<lambda>t. t_driver_id t = user \<and> t_status t = active) (trips db)) of
             None \<Rightarrow> st
           | Some data \<Rightarrow> st\<lparr>activeTrip := Some (activeTrip_of db data)\<rparr>))"

text \<open>\<^verbatim>\<open>handleStartTrip\<close> is asynchronous. It reads the selection in the render that
  created it (\<open>render\<close>), awaits the session and the insert, and only then calls
  \<^verbatim>\<open>setActiveTrip\<close>, on the state the component has by then (\<open>st\<close>).\<close>

definition handleStartTrip ::
  "env \<Rightarrow> database \<Rightarrow> DriverDashboard \<Rightarrow> DriverDashboard
     \<Rightarrow> database \<times> DriverDashboard \<times> notice list" where
  "handleStartTrip e db render st =
     (if selectedBus render = [] \<or> selectedRoute render = [] then
        (db, st, [toast ''Missing Information'' ''Please select both a bus and a route.'' True])
      else (case getUser e of
              None \<Rightarrow> (db, st, [])
            | Some user \<Rightarrow>
                (case insert_trip e db (selectedBus render) (selectedRoute render) user of
                   Inl error \<Rightarrow>
                     (db, st, [console_error ''Error starting trip'',
                               toast ''Error'' ''Could not start trip. Please try again.'' True])
                 | Inr (db', data) \<Rightarrow>
                     (db', st\<lparr>activeTrip := Some (activeTrip_of db' data)\<rparr>,
                      [toast ''Trip Started!'' ''GPS tracking is now active.'' False]))))"

definition handleEndTrip ::
  "env \<Rightarrow> database \<Rightarrow> DriverDashboard \<Rightarrow> database \<times> DriverDashboard \<times> notice list" where
  "handleEndTrip e db st =
     (case activeTrip st of
        None \<Rightarrow> (db, st, [])
      | Some tr \<Rightarrow>
          (case complete_trip e db (at_id tr) of
             Inl error \<Rightarrow>
               (db, st, [console_error ''Error ending trip'',
                         toast ''Error'' ''Could not end trip. Please try again.'' True])
           | Inr db' \<Rightarrow>
               (db', st\<lparr>activeTrip := None, gpsUpdateCount := 0\<rparr>,
                [toast ''Trip Completed!'' ''GPS tracking has been stopped.'' False])))"

text \<open>A click on the start button of one render. The start form is part of a render
  only while \<^verbatim>\<open>!activeTrip\<close> there, and its button is disabled while a selection is missing;
  nothing else disables it, so that a render can be clicked again while the handler of an
  earlier click is still waiting. The handler of the click works on the tables and on the
  state that it finds when its requests are answered.\<close>

definition start_click ::
  "env \<Rightarrow> database \<Rightarrow> DriverDashboard \<Rightarrow> DriverDashboard
     \<Rightarrow> database \<times> DriverDashboard \<times> notice list" where
  "start_click e db render st =
     (if activeTrip render = None \<and> selectedBus render \<noteq> [] \<and> selectedRoute render \<noteq> []
      then handleStartTrip e db render st else (db, st, []))"

subsection \<open>Sending a GPS update\<close>

text \<open>A JavaScript number, and the coordinates of a position: \<^verbatim>\<open>speed\<close>, \<^verbatim>\<open>heading\<close> and
  \<^verbatim>\<open>accuracy\<close> may be absent (\<open>None\<close>).\<close>

datatype jsnum = Num real | NaN

record GeolocationCoordinates =
  latitude :: real
  longitude :: real
  speed :: "jsnum option"
  heading :: "jsnum option"
  accuracy :: "jsnum option"

record PositionOptions =
  enableHighAccuracy :: bool
  timeout :: nat
  maximumAge :: nat

text \<open>The answer of the positioning source: the success or the error callback.\<close>

datatype acquisition = acquired GeolocationCoordinates | failed

text \<open>\<^verbatim>\<open>x || 0\<close>: null, undefined, NaN and 0 give 0.\<close>

fun or_zero :: "jsnum option \<Rightarrow> real" where
  "or_zero None = 0"
| "or_zero (Some NaN) = 0"
| "or_zero (Some (Num v)) = v"

text \<open>\<^verbatim>\<open>sendGPSUpdate\<close> up to the call of \<^verbatim>\<open>getCurrentPosition\<close>. Its argument is the
  \<^verbatim>\<open>activeTrip\<close> of the render that created the closure. The result: what is shown, and the
  position request if one is made, with the trip its callbacks will use.\<close>

definition sendGPSUpdate ::
  "env \<Rightarrow> ActiveTrip option \<Rightarrow> notice list \<times> (ActiveTrip \<times> PositionOptions) option" where
  "sendGPSUpdate e closure =
     (case closure of
        None \<Rightarrow> ([], None)
      | Some tr \<Rightarrow>
          if has_geolocation e then
            ([], Some (tr, \<lparr>enableHighAccuracy = True, timeout = 5000, maximumAge = 0\<rparr>))
          else
            ([toast ''Location Not Supported''
                ''Your device doesn't support location tracking.'' True], None))"

text \<open>The options of every position request of \<^verbatim>\<open>sendGPSUpdate\<close>.\<close>

abbreviation tracking_options :: PositionOptions where
  "tracking_options \<equiv> \<lparr>enableHighAccuracy = True, timeout = 5000, maximumAge = 0\<rparr>"

text \<open>The success callback: the insert, then the counter or the console.\<close>

definition position_success ::
  "env \<Rightarrow> database \<Rightarrow> DriverDashboard \<Rightarrow> ActiveTrip \<Rightarrow> GeolocationCoordinates
     \<Rightarrow> database \<times> DriverDashboard \<times> notice list" where
  "position_success e db st tr c =
     (case insert_gps e db (at_id tr) (latitude c) (longitude c)
             (or_zero (speed c)) (or_zero (heading c)) (or_zero (accuracy c)) of
        Inl error \<Rightarrow> (db, st, [console_error ''Error sending GPS update''])
      | Inr db' \<Rightarrow> (db', st\<lparr>gpsUpdateCount := gpsUpdateCount st + 1\<rparr>, []))"

text \<open>The error callback.\<close>

definition position_error ::
  "database \<Rightarrow> DriverDashboard \<Rightarrow> database \<times> DriverDashboard \<times> notice list" where
  "position_error db st =
     (db, st, [console_error ''Geolocation error'',
               toast ''Location Error''
                 ''Could not get your location. Please enable location services.'' True])"

text \<open>One whole call of \<^verbatim>\<open>sendGPSUpdate\<close> with the answer of the positioning source.\<close>

definition gps_update_cycle ::
  "env \<Rightarrow> database \<Rightarrow> DriverDashboard \<Rightarrow> ActiveTrip option \<Rightarrow> acquisition
     \<Rightarrow> database \<times> DriverDashboard \<times> notice list" where
  "gps_update_cycle e db st closure acq =
     (case sendGPSUpdate e closure of
        (ns, None) \<Rightarrow> (db, st, ns)
      | (ns, Some (tr, opts)) \<Rightarrow>
          (case acq of
             acquired c \<Rightarrow> position_success e db st tr c
           | failed \<Rightarrow> position_error db st))"

subsection \<open>The interval timer and the tracking effect\<close>

text \<open>The timers of the page: \<^verbatim>\<open>setInterval(callback, period)\<close> registers a timer that is
  due one period from now and, each time it fires, one period later again;
  \<^verbatim>\<open>clearInterval\<close> removes it. The callback of a timer is \<^verbatim>\<open>sendGPSUpdate\<close> of one render,
  kept as the \<^verbatim>\<open>activeTrip\<close> of that render. Instants are milliseconds.\<close>

record timer =
  tm_id :: nat
  tm_period :: nat
  tm_due :: nat
  tm_trip :: ActiveTrip

record browser =
  clock :: nat
  timers :: "timer list"
  next_handle :: nat

definition setInterval :: "browser \<Rightarrow> nat \<Rightarrow> ActiveTrip \<Rightarrow> nat \<times> browser" where
  "setInterval br period tr =
     (next_handle br,
      br\<lparr>timers := timers br @
            [\<lparr>tm_id = next_handle br, tm_period = period, tm_due = clock br + period,
              tm_trip = tr\<rparr>],
         next_handle := next_handle br + 1\<rparr>)"

definition clearInterval :: "nat \<Rightarrow> browser \<Rightarrow> browser" where
  "clearInterval h br = br\<lparr>timers := filter (\<lambda>t. tm_id t \<noteq> h) (timers br)\<rparr>"

text \<open>The effect on \<^verbatim>\<open>[activeTrip]\<close>: the cleanup of its last run, then its body. The third
  component is the result of the immediate \<^verbatim>\<open>sendGPSUpdate()\<close>. The tests
  \<^verbatim>\<open>if (interval)\<close> and \<^verbatim>\<open>if (gpsInterval)\<close> hold for a handle other than 0; the handles a
  browser gives out are positive.\<close>

definition tracking_effect ::
  "env \<Rightarrow> browser \<Rightarrow> DriverDashboard
     \<Rightarrow> browser \<times> DriverDashboard \<times> (notice list \<times> (ActiveTrip \<times> PositionOptions) option)" where
  "tracking_effect e br st =
     (let br1 = (case effect_cleanup st of
                   None \<Rightarrow> br
                 | Some h \<Rightarrow> if h \<noteq> 0 then clearInterval h br else br) in
      case activeTrip st of
        None \<Rightarrow>
          (case gpsInterval st of
             Some h \<Rightarrow>
               if h \<noteq> 0 then
                 (clearInterval h br1, st\<lparr>gpsInterval := None, effect_cleanup := None\<rparr>,
                  ([], None))
               else (br1, st\<lparr>effect_cleanup := None\<rparr>, ([], None))
           | None \<Rightarrow> (br1, st\<lparr>effect_cleanup := None\<rparr>, ([], None)))
      | Some tr \<Rightarrow>
          (let (interval, br2) = setInterval br1 5000 tr in
           (br2, st\<lparr>gpsInterval := Some interval, effect_cleanup := Some interval\<rparr>,
            sendGPSUpdate e (Some tr))))"

text \<open>The timer that fires next: the one with the least due instant, the one registered
  first among equals. Firing moves the clock there and makes the timer due one period
  later.\<close>

fun earliest :: "timer list \<Rightarrow> timer option" where
  "earliest [] = None"
| "earliest (t # ts) =
     (case earliest ts of
        None \<Rightarrow> Some t
      | Some u \<Rightarrow> if tm_due u < tm_due t then Some u else Some t)"

definition fire :: "browser \<Rightarrow> (timer \<times> browser) option" where
  "fire br =
     (case earliest (timers br) of
        None \<Rightarrow> None
      | Some t \<Rightarrow>
          Some (t, br\<lparr>clock := max (clock br) (tm_due t),
                      timers := map (\<lambda>u. if tm_id u = tm_id t
                                          then u\<lparr>tm_due := tm_due u + tm_period u\<rparr> else u)
                                  (timers br)\<rparr>))"

text \<open>One tick: the next timer fires and its callback runs up to the position request.\<close>

definition timer_tick ::
  "env \<Rightarrow> browser
     \<Rightarrow> (browser \<times> notice list \<times> (ActiveTrip \<times> PositionOptions) option) option" where
  "timer_tick e br =
     (case fire br of
        None \<Rightarrow> None
      | Some (t, br') \<Rightarrow> Some (br', sendGPSUpdate e (Some (tm_trip t))))"

text \<open>The first \<open>n\<close> ticks: the instant of each and what its callback did.\<close>

fun tick_log ::
  "env \<Rightarrow> nat \<Rightarrow> browser
     \<Rightarrow> (nat \<times> notice list \<times> (ActiveTrip \<times> PositionOptions) option) list" where
  "tick_log e 0 br = []"
| "tick_log e (Suc n) br =
     (case timer_tick e br of
        None \<Rightarrow> []
      | Some (br', r) \<Rightarrow> (clock br', r) # tick_log e n br')"

text \<open>One tick with the answer of the positioning source.\<close>

definition tracking_tick ::
  "env \<Rightarrow> database \<Rightarrow> browser \<Rightarrow> DriverDashboard \<Rightarrow> acquisition
     \<Rightarrow> (database \<times> browser \<times> DriverDashboard \<times> notice list) option" where
  "tracking_tick e db br st acq =
     (case fire br of
        None \<Rightarrow> None
      | Some (t, br') \<Rightarrow>
          (case gps_update_cycle e db st (Some (tm_trip t)) acq of
             (db', st', ns) \<Rightarrow> Some (db', br', st', ns)))"

section \<open>Runs of the location view\<close>

text \<open>What changes the view of a mounted BusMap: a completed \<^verbatim>\<open>fetchBusLocations\<close>, or a
  delivery to the handler of the channel.\<close>

datatype busmap_step = fetched env database | delivered env database gps_row

fun busmap_do :: "busmap_step \<Rightarrow> BusLocation list \<Rightarrow> BusLocation list" where
  "busmap_do (fetched e db) view = fetchBusLocations e db view"
| "busmap_do (delivered e db payload) view = gps_handler e db payload view"

fun busmap_run :: "busmap_step list \<Rightarrow> BusLocation list \<Rightarrow> BusLocation list" where
  "busmap_run [] view = view"
| "busmap_run (s # steps) view = busmap_run steps (busmap_do s view)"

text \<open>The primary key of trips, for the tables a fetch reads.\<close>

fun trips_pk :: "busmap_step \<Rightarrow> bool" where
  "trips_pk (fetched e db) = distinct (map t_id (trips db))"
| "trips_pk (delivered e db payload) = True"


section \<open>The active trips of a driver\<close>

text \<open>The rows of trips that are active and belong to a driver, and a dashboard that
  mirrors them: \<^verbatim>\<open>activeTrip\<close> is null when there is none and holds the trip when there is
  exactly one.\<close>

definition active_trips_of :: "uuid \<Rightarrow> database \<Rightarrow> trip_row list" where
  "active_trips_of uid db = filter (\<lambda>t. t_driver_id t = uid \<and> t_status t = active) (trips db)"

definition in_sync :: "uuid \<Rightarrow> database \<Rightarrow> DriverDashboard \<Rightarrow> bool" where
  "in_sync uid db st \<longleftrightarrow>
     map t_id (active_trips_of uid db) = (case activeTrip st of None \<Rightarrow> [] | Some tr \<Rightarrow> [at_id tr])"

text \<open>What makes \<^verbatim>\<open>handleStartTrip\<close> succeed: a selection in its render, a session, a
  backend within reach, and an insert that the keys accept. The trip it inserts.\<close>

definition start_ok :: "env \<Rightarrow> database \<Rightarrow> DriverDashboard \<Rightarrow> bool" where
  "start_ok e db st \<longleftrightarrow>
     online e \<and> selectedBus st \<noteq> [] \<and> selectedRoute st \<noteq> []
     \<and> (case auth_uid e of None \<Rightarrow> False | Some user \<Rightarrow> user \<in> set (profiles db))
     \<and> selectedBus st \<in> b_id ` set (buses db) \<and> selectedRoute st \<in> r_id ` set (routes db)
     \<and> fresh_id e \<notin> t_id ` set (trips db)"

definition started_trip :: "env \<Rightarrow> DriverDashboard \<Rightarrow> uuid \<Rightarrow> trip_row" where
  "started_trip e st user =
     \<lparr>t_id = fresh_id e, t_bus_id = selectedBus st, t_route_id = selectedRoute st,
      t_driver_id = user, t_status = active, t_started_at = now e, t_completed_at = None\<rparr>"

section \<open>A scenario: bus 12 on the Downtown Loop\<close>

definition driver_env :: "nat \<Rightarrow> uuid \<Rightarrow> env" where
  "driver_env t new_id =
     \<lparr>online = True, auth_uid = Some ''driver-1'', has_geolocation = True, now = t,
      client_now = t, fresh_id = new_id\<rparr>"

definition passenger_env :: env where
  "passenger_env =
     \<lparr>online = True, auth_uid = Some ''passenger-1'', has_geolocation = True, now = 9000,
      client_now = 9000, fresh_id = ''unused''\<rparr>"

definition trip1 :: trip_row where
  "trip1 = \<lparr>t_id = ''trip-1'', t_bus_id = ''bus-12'', t_route_id = ''route-1'',
            t_driver_id = ''driver-1'', t_status = active, t_started_at = 1000,
            t_completed_at = None\<rparr>"

definition trip2 :: trip_row where
  "trip2 = \<lparr>t_id = ''trip-2'', t_bus_id = ''bus-12'', t_route_id = ''route-1'',
            t_driver_id = ''driver-1'', t_status = active, t_started_at = 2000,
            t_completed_at = None\<rparr>"

definition sample1 :: gps_row where
  "sample1 = \<lparr>g_id = ''gps-1'', g_trip_id = ''trip-1'', g_latitude = 40, g_longitude = - 75,
              g_speed = Some 0, g_heading = Some 0, g_accuracy = Some 0, g_created_at = 1000\<rparr>"

definition sample2 :: gps_row where
  "sample2 = \<lparr>g_id = ''gps-2'', g_trip_id = ''trip-1'', g_latitude = 41, g_longitude = - 76,
              g_speed = Some 0, g_heading = Some 0, g_accuracy = Some 0, g_created_at = 6000\<rparr>"


definition db_idle :: database where
  "db_idle =
     \<lparr>profiles = [''driver-1'', ''passenger-1''],
      buses = [\<lparr>b_id = ''bus-12'', b_bus_number = ''12'', b_is_active = True\<rparr>],
      routes = [\<lparr>r_id = ''route-1'', r_name = ''Downtown Loop'', r_is_active = True\<rparr>],
      trips = [], gps_updates = []\<rparr>"

definition db_started :: database where
  "db_started = db_idle\<lparr>trips := [trip1]\<rparr>"

definition db_tracking :: database where
  "db_tracking = db_idle\<lparr>trips := [trip1], gps_updates := [sample1]\<rparr>"

definition db_ended :: database where
  "db_ended =
     db_idle\<lparr>trips := [trip1\<lparr>t_status := completed, t_completed_at := Some 8000\<rparr>],
             gps_updates := [sample1]\<rparr>"

definition db_two_trips :: database where
  "db_two_trips = db_idle\<lparr>trips := [trip1, trip2]\<rparr>"

definition location1 :: BusLocation where
  "location1 = \<lparr>bl_id = ''trip-1'', bl_bus_number = ''12'', bl_latitude = 40,
                bl_longitude = - 75, bl_trip_id = ''trip-1'', bl_route_name = ''Downtown Loop''\<rparr>"

definition dashboard_idle :: DriverDashboard where
  "dashboard_idle =
     \<lparr>selectedBus = ''bus-12'', selectedRoute = ''route-1'', activeTrip = None,
      gpsInterval = None, gpsUpdateCount = 0, effect_cleanup = None\<rparr>"

definition active1 :: ActiveTrip where
  "active1 = \<lparr>at_id = ''trip-1'', at_bus_number = ''12'', at_route_name = ''Downtown Loop'',
              at_started_at = 1000\<rparr>"

definition dashboard_driving :: DriverDashboard where
  "dashboard_driving = dashboard_idle\<lparr>activeTrip := Some active1\<rparr>"

definition browser_idle :: browser where
  "browser_idle = \<lparr>clock = 1000, timers = [], next_handle = 1\<rparr>"

definition timer1 :: timer where
  "timer1 = \<lparr>tm_id = 1, tm_period = 5000, tm_due = 6000, tm_trip = active1\<rparr>"

definition browser_tracking :: browser where
  "browser_tracking = \<lparr>clock = 1000, timers = [timer1], next_handle = 2\<rparr>"

definition fix_no_extras :: GeolocationCoordinates where
  "fix_no_extras = \<lparr>latitude = 41, longitude = - 76, speed = None, heading = None, accuracy = None\<rparr>"

definition fix_off_range :: GeolocationCoordinates where
  "fix_off_range = \<lparr>latitude = 95, longitude = 200, speed = None, heading = None, accuracy = None\<rparr>"

definition fix_off_precision :: GeolocationCoordinates where
  "fix_off_precision = \<lparr>latitude = 120, longitude = 0, speed = None, heading = None, accuracy = None\<rparr>"

section \<open>Properties of the location view\<close>


lemma findIndex_None: "findIndex P xs = None \<longleftrightarrow> (\<forall>x \<in> set xs. \<not> P x)"
  by (induction xs) (auto split: option.splits)

lemma findIndex_Some:
  "findIndex P xs = Some i \<Longrightarrow> i < length xs \<and> P (xs ! i) \<and> (\<forall>j < i. \<not> P (xs ! j))"
proof (induction xs arbitrary: i)
  case Nil
  then show ?case by simp
next
  case (Cons x xs)
  show ?case
  proof (cases "P x")
    case True
    with Cons.prems show ?thesis by simp
  next
    case False
    with Cons.prems obtain k where k: "findIndex P xs = Some k" "i = Suc k"
      by (auto split: option.splits)
    from Cons.IH [OF k(1)] False k(2) show ?thesis
      by (auto simp: less_Suc_eq_0_disj)
  qed
qed



lemma updater_shape:
  "(\<exists>i < length view. bl_id (view ! i) = bl_id n \<and> setBusLocations_updater n view = view[i := n])
   \<or> (bl_id n \<notin> bl_id ` set view \<and> setBusLocations_updater n view = view @ [n])"
proof (cases "findIndex (\<lambda>loc. bl_id loc = bl_id n) view")
  case None
  then have "bl_id n \<notin> bl_id ` set view"
    by (auto simp: findIndex_None)
  with None show ?thesis
    by (simp add: setBusLocations_updater_def)
next
  case (Some i)
  from findIndex_Some [OF Some] Some show ?thesis
    by (auto simp: setBusLocations_updater_def)
qed

lemma updater_distinct:
  assumes "distinct (map bl_id view)"
  shows "distinct (map bl_id (setBusLocations_updater n view))"
proof -
  from updater_shape [of view n] show ?thesis
  proof
    assume "\<exists>i < length view. bl_id (view ! i) = bl_id n \<and> setBusLocations_updater n view = view[i := n]"
    then obtain i where i: "i < length view" "bl_id (view ! i) = bl_id n"
      "setBusLocations_updater n view = view[i := n]" by blast
    have "map bl_id (view[i := n]) = (map bl_id view)[i := bl_id (view ! i)]"
      by (simp add: map_update i(2))
    also have "\<dots> = map bl_id view"
      using i(1) by (simp add: list_update_same_conv)
    finally show ?thesis using assms i(3) by simp
  next
    assume "bl_id n \<notin> bl_id ` set view \<and> setBusLocations_updater n view = view @ [n]"
    with assms show ?thesis by simp
  qed
qed

lemma collect_locations_ids:
  "set (map bl_id (collect_locations db ts)) \<subseteq> set (map t_id ts)"
  by (induction ts) (auto split: option.splits)

lemma collect_locations_distinct:
  "distinct (map t_id ts) \<Longrightarrow> distinct (map bl_id (collect_locations db ts))"
proof (induction ts)
  case Nil
  then show ?case by simp
next
  case (Cons t ts)
  then have "t_id t \<notin> set (map bl_id (collect_locations db ts))"
    using collect_locations_ids [of db ts] by auto
  with Cons show ?case by (auto split: option.splits)
qed

lemma fetchBusLocations_distinct:
  assumes "distinct (map bl_id view)" "distinct (map t_id (trips db))"
  shows "distinct (map bl_id (fetchBusLocations e db view))"
proof -
  have "distinct (map t_id (filter (\<lambda>t. t_status t = active) (trips db)))"
    using assms(2) by (simp add: distinct_map_filter)
  then have "distinct (map bl_id (collect_locations db (filter (\<lambda>t. t_status t = active) (trips db))))"
    by (rule collect_locations_distinct)
  with assms(1) show ?thesis
    by (cases "filter (\<lambda>t. t_status t = active) (trips db)")
       (simp_all add: fetchBusLocations_def del: collect_locations.simps)
qed

lemma gps_handler_distinct:
  "distinct (map bl_id view) \<Longrightarrow> distinct (map bl_id (gps_handler e db g view))"
  by (simp add: gps_handler_def updater_distinct split: option.splits)

lemma busmap_run_distinct:
  "distinct (map bl_id view) \<Longrightarrow> \<forall>s \<in> set steps. trips_pk s
     \<Longrightarrow> distinct (map bl_id (busmap_run steps view))"
proof (induction steps arbitrary: view)
  case Nil
  then show ?case by simp
next
  case (Cons s steps)
  have "distinct (map bl_id (busmap_do s view))"
  proof (cases s)
    case (fetched e db)
    with Cons.prems show ?thesis by (simp add: fetchBusLocations_distinct)
  next
    case (delivered e db g)
    with Cons.prems show ?thesis by (simp add: gps_handler_distinct)
  qed
  with Cons show ?case by simp
qed






text \<open>
  C10. The bus-location view never holds two entries with the same trip identifier:
  along any run of fetches and deliveries from a view without duplicates the identifiers
  stay distinct (the fetches read tables in which the primary key of trips holds), and
  each application of the updater either replaces, in place, the entry that has the trip
  identifier of the new location, or appends the new location as a single new entry when
  no entry has it.
\<close>

theorem view_trip_ids_unique:
  assumes "distinct (map bl_id view)" and "\<forall>s \<in> set steps. trips_pk s"
  shows "distinct (map bl_id (busmap_run steps view))
       \<and> ((\<exists>i < length view. bl_id (view ! i) = bl_id n
               \<and> setBusLocations_updater n view = view[i := n])
          \<or> (bl_id n \<notin> bl_id ` set view \<and> setBusLocations_updater n view = view @ [n]))"
  using assms busmap_run_distinct updater_shape by blast

theorem view_trip_ids_unique_witness:
  "distinct (map bl_id [location1])
   \<and> distinct (map bl_id (busmap_run [fetched passenger_env db_tracking,
                  delivered passenger_env db_tracking sample2] [location1]))
   \<and> setBusLocations_updater (location1\<lparr>bl_latitude := 41\<rparr>) [location1]
       = [location1\<lparr>bl_latitude := 41\<rparr>]"
proof -
  have h1: "distinct (map bl_id [location1])" by simp
  have h2: "\<forall>s \<in> set [fetched passenger_env db_tracking,
                  delivered passenger_env db_tracking sample2]. trips_pk s"
    by (simp add: db_tracking_def db_idle_def)
  have u: "setBusLocations_updater (location1\<lparr>bl_latitude := 41\<rparr>) [location1]
       = [location1\<lparr>bl_latitude := 41\<rparr>]"
    by (simp add: setBusLocations_updater_def)
  from view_trip_ids_unique [OF h1 h2, of "location1\<lparr>bl_latitude := 41\<rparr>"] h1 h2 u
  show ?thesis by blast
qed





text \<open>
  C3, as the code has it. The handler does not compare instants, and the view does not keep
  \<^verbatim>\<open>created_at\<close>: when the trip of the delivered sample is in the view and its trip row is
  found, the entry of the trip is replaced, at its position, by the location built from the
  delivered sample, whatever the \<^verbatim>\<open>created_at\<close> of the sample.
\<close>

theorem delivered_sample_replaces:
  assumes "select_trip e db (g_trip_id g) = Some td"
    and "findIndex (\<lambda>loc. bl_id loc = g_trip_id g) view = Some i"
  shows "gps_handler e db g view = view[i := newLocation db td g]"
  using assms by (simp add: gps_handler_def setBusLocations_updater_def newLocation_def)

theorem delivered_sample_replaces_witness:
  "gps_handler passenger_env db_tracking (sample2\<lparr>g_created_at := 500\<rparr>) [location1]
   = [location1][0 := newLocation db_tracking trip1 (sample2\<lparr>g_created_at := 500\<rparr>)]"
proof -
  have h1: "select_trip passenger_env db_tracking (g_trip_id (sample2\<lparr>g_created_at := 500\<rparr>))
          = Some trip1"
    by (simp add: select_trip_def single_def passenger_env_def db_tracking_def db_idle_def
        trip1_def sample2_def)
  have h2: "findIndex (\<lambda>loc. bl_id loc = g_trip_id (sample2\<lparr>g_created_at := 500\<rparr>)) [location1]
          = Some 0"
    by (simp add: location1_def sample2_def)
  from delivered_sample_replaces [OF h1 h2] show ?thesis .
qed

text \<open>
  C3 as the specification states it fails: the view holds the sample of instant 6000 of a
  trip, a sample of the same trip with the older instant 1000 is delivered, and the stored
  entry changes to the older sample.
\<close>

theorem older_sample_overwrites:
  "g_created_at sample1 < g_created_at sample2
   \<and> g_trip_id sample1 = g_trip_id sample2
   \<and> gps_handler passenger_env db_tracking sample2 []
       = [location1\<lparr>bl_latitude := 41, bl_longitude := - 76\<rparr>]
   \<and> gps_handler passenger_env db_tracking sample1
        (gps_handler passenger_env db_tracking sample2 []) = [location1]"
  by (simp add: gps_handler_def select_trip_def single_def newLocation_def or_else_def
      trip_bus_number_def trip_route_name_def setBusLocations_updater_def passenger_env_def
      db_tracking_def db_idle_def trip1_def sample1_def sample2_def location1_def)

text \<open>
  C5 on the map. The view of BusMap holds the entry of trip 1; the driver ends the trip and
  the change of the trip row is published. BusMap listens to inserts of GPS rows only, so
  the entry stays, and a new fetch, which finds no active trip, leaves it as well. The list
  of PassengerDashboard, which listens to the trips of its route, drops the trip.
\<close>

theorem ended_trip_stays_on_map:
  "fetchBusLocations passenger_env db_tracking [] = [location1]
   \<and> busmap_on_change passenger_env db_ended
        (trips_change (trip1\<lparr>t_status := completed, t_completed_at := Some 8000\<rparr>)) [location1]
       = [location1]
   \<and> fetchBusLocations passenger_env db_ended [location1] = [location1]
   \<and> passenger_on_change passenger_env db_ended ''route-1''
        (trips_change (trip1\<lparr>t_status := completed, t_completed_at := Some 8000\<rparr>))
        (fetchActiveBuses passenger_env db_tracking ''route-1'' []) = []"
  by (simp add: fetchBusLocations_def latest_gps_def or_else_def trip_bus_number_def
      trip_route_name_def fetchActiveBuses_def passenger_env_def db_tracking_def db_ended_def
      db_idle_def trip1_def sample1_def location1_def)

section \<open>Properties of the driver dashboard\<close>

lemma numeric_overflow_ge:
  assumes "s \<le> p" and "10 ^ (p - s) \<le> \<bar>x\<bar>"
  shows "\<not> numeric_fits p s x"
proof -
  have pw: "(10::real) ^ (p - s) * 10 ^ s = 10 ^ p"
    using assms(1) by (simp flip: power_add)
  have "(10::real) ^ p \<le> \<bar>x\<bar> * 10 ^ s"
    using assms(2) pw by (metis mult_right_mono zero_le_numeral zero_le_power)
  then have "real_of_int (10 ^ p) \<le> \<bar>x\<bar> * 10 ^ s + 1 / 2"
    by simp
  then have fl: "(10::int) ^ p \<le> \<lfloor>\<bar>x\<bar> * 10 ^ s + 1 / 2\<rfloor>"
    by (simp only: le_floor_iff)
  have r: "\<bar>pg_round s x\<bar> = real_of_int \<lfloor>\<bar>x\<bar> * 10 ^ s + 1 / 2\<rfloor> / 10 ^ s"
  proof -
    define n where "n = \<lfloor>\<bar>x\<bar> * 10 ^ s + 1 / 2\<rfloor>"
    have "0 \<le> \<bar>x\<bar> * 10 ^ s"
      by (rule mult_nonneg_nonneg) simp_all
    then have "0 \<le> \<bar>x\<bar> * 10 ^ s + 1 / 2"
      by linarith
    then have n0: "0 \<le> n"
      unfolding n_def by (simp only: zero_le_floor)
    have "pg_round s x = (if x < 0 then - real_of_int n else real_of_int n) / 10 ^ s"
      unfolding n_def pg_round_def by (simp add: abs_if)
    then have "pg_round s x = - (real_of_int n / 10 ^ s) \<or> pg_round s x = real_of_int n / 10 ^ s"
      by (simp split: if_splits)
    moreover have "0 \<le> real_of_int n / 10 ^ s"
      using n0 by simp
    ultimately have "\<bar>pg_round s x\<bar> = real_of_int n / 10 ^ s"
      by (metis abs_minus_cancel abs_of_nonneg)
    then show ?thesis
      unfolding n_def .
  qed
  from fl have "(10::real) ^ p \<le> real_of_int \<lfloor>\<bar>x\<bar> * 10 ^ s + 1 / 2\<rfloor>"
    by (metis of_int_le_iff of_int_numeral of_int_power)
  then have "(10::real) ^ p / 10 ^ s \<le> \<bar>pg_round s x\<bar>"
    by (simp add: r divide_right_mono)
  moreover have "(10::real) ^ p / 10 ^ s = 10 ^ (p - s)"
    using assms(1) by (simp add: power_diff)
  ultimately show ?thesis
    by (simp add: numeric_fits_def)
qed

lemma pg_round_zero: "pg_round s 0 = 0"
  by (simp add: pg_round_def)

lemma insert_gps_Inr:
  assumes "insert_gps e db tid lat lng spd hdg acc = Inr db'"
  shows "db' = db\<lparr>gps_updates := gps_updates db @
             [\<lparr>g_id = fresh_id e, g_trip_id = tid,
               g_latitude = pg_round 8 lat, g_longitude = pg_round 8 lng,
               g_speed = Some (pg_round 2 spd), g_heading = Some (pg_round 2 hdg),
               g_accuracy = Some (pg_round 2 acc), g_created_at = now e\<rparr>]\<rparr>"
    and "numeric_fits 10 8 lat" and "numeric_fits 11 8 lng"
  using assms by (auto simp: insert_gps_def split: if_splits)

text \<open>
  C9. When the insert of a position is accepted (the success callback ends without an
  error), the row appended to \<^verbatim>\<open>gps_updates\<close> belongs to the trip of the callback, and
  each of speed, heading and accuracy that the position lacks is stored as zero.
\<close>

theorem absent_fields_stored_zero:
  assumes "position_success e db st tr c = (db', st', [])"
  shows "gps_updates db' = gps_updates db @ [last (gps_updates db')]
       \<and> g_trip_id (last (gps_updates db')) = at_id tr
       \<and> (speed c = None \<longrightarrow> g_speed (last (gps_updates db')) = Some 0)
       \<and> (heading c = None \<longrightarrow> g_heading (last (gps_updates db')) = Some 0)
       \<and> (accuracy c = None \<longrightarrow> g_accuracy (last (gps_updates db')) = Some 0)"
proof -
  from assms obtain d where d: "insert_gps e db (at_id tr) (latitude c) (longitude c)
      (or_zero (speed c)) (or_zero (heading c)) (or_zero (accuracy c)) = Inr d" and "db' = d"
    by (auto simp: position_success_def split: sum.splits)
  with insert_gps_Inr(1) [OF d] show ?thesis
    by (auto simp: pg_round_zero)
qed

theorem absent_fields_stored_zero_witness:
  "position_success (driver_env 6000 ''gps-2'') db_tracking dashboard_driving active1 fix_no_extras
     = (db_tracking\<lparr>gps_updates := [sample1, sample2]\<rparr>,
        dashboard_driving\<lparr>gpsUpdateCount := 1\<rparr>, [])
   \<and> g_speed (last [sample1, sample2]) = Some 0
   \<and> g_heading (last [sample1, sample2]) = Some 0
   \<and> g_accuracy (last [sample1, sample2]) = Some 0"
proof -
  have h: "position_success (driver_env 6000 ''gps-2'') db_tracking dashboard_driving active1
        fix_no_extras
     = (db_tracking\<lparr>gps_updates := [sample1, sample2]\<rparr>,
        dashboard_driving\<lparr>gpsUpdateCount := 1\<rparr>, [])"
    by (simp add: position_success_def insert_gps_def numeric_fits_def pg_round_def
        driver_env_def db_tracking_def db_idle_def trip1_def sample1_def sample2_def
        dashboard_driving_def dashboard_idle_def active1_def fix_no_extras_def)
  have n: "speed fix_no_extras = None" "heading fix_no_extras = None"
    "accuracy fix_no_extras = None"
    by (simp_all add: fix_no_extras_def)
  from absent_fields_stored_zero [OF h] n h show ?thesis
    by simp
qed

text \<open>
  C4, as the code has it. \<^verbatim>\<open>sendGPSUpdate\<close> validates no range. What refuses a sample
  is the insert: a latitude of magnitude 100 or more, or a longitude of magnitude 1000 or
  more, does not fit its \<^verbatim>\<open>NUMERIC(10, 8)\<close> or \<^verbatim>\<open>NUMERIC(11, 8)\<close> column; then nothing is
  persisted, the state of the dashboard is unchanged, and the error goes to the console.
\<close>

theorem out_of_precision_rejected:
  assumes "100 \<le> \<bar>latitude c\<bar> \<or> 1000 \<le> \<bar>longitude c\<bar>"
  shows "position_success e db st tr c = (db, st, [console_error ''Error sending GPS update''])"
proof -
  have "\<not> numeric_fits 10 8 (latitude c) \<or> \<not> numeric_fits 11 8 (longitude c)"
    using assms numeric_overflow_ge [of 8 10 "latitude c"] numeric_overflow_ge [of 8 11 "longitude c"]
    by auto
  then have "\<exists>err. insert_gps e db (at_id tr) (latitude c) (longitude c)
      (or_zero (speed c)) (or_zero (heading c)) (or_zero (accuracy c)) = Inl err"
    by (auto simp: insert_gps_def)
  then show ?thesis
    by (auto simp: position_success_def)
qed

theorem out_of_precision_rejected_witness:
  "position_success (driver_env 6000 ''gps-2'') db_tracking dashboard_driving active1
        fix_off_precision
     = (db_tracking, dashboard_driving, [console_error ''Error sending GPS update''])"
proof -
  have h: "100 \<le> \<bar>latitude fix_off_precision\<bar> \<or> 1000 \<le> \<bar>longitude fix_off_precision\<bar>"
    by (simp add: fix_off_precision_def)
  from out_of_precision_rejected [OF h] show ?thesis .
qed

text \<open>
  C4 as the specification states it fails: a position with latitude 95 and longitude 200,
  delivered for the active trip of the driver, is inserted and counted, without any error.
\<close>

theorem off_range_sample_is_stored:
  "\<not> (latitude fix_off_range \<le> 90) \<and> \<not> (longitude fix_off_range \<le> 180)
   \<and> position_success (driver_env 6000 ''gps-2'') db_tracking dashboard_driving active1
        fix_off_range
     = (db_tracking\<lparr>gps_updates := [sample1,
           \<lparr>g_id = ''gps-2'', g_trip_id = ''trip-1'', g_latitude = 95, g_longitude = 200,
            g_speed = Some 0, g_heading = Some 0, g_accuracy = Some 0, g_created_at = 6000\<rparr>]\<rparr>,
        dashboard_driving\<lparr>gpsUpdateCount := 1\<rparr>, [])"
  by (simp add: position_success_def insert_gps_def numeric_fits_def pg_round_def
      driver_env_def db_tracking_def db_idle_def trip1_def sample1_def
      dashboard_driving_def dashboard_idle_def active1_def fix_off_range_def)

lemma earliest_member: "earliest ts = Some t \<Longrightarrow> t \<in> set ts"
  by (induction ts arbitrary: t) (auto split: option.splits if_splits)

lemma earliest_None: "earliest ts = None \<longleftrightarrow> ts = []"
  by (cases ts) (auto split: option.splits)

lemma fire_Some:
  assumes "fire br = Some (t, br')"
  shows "t \<in> set (timers br)"
    and "br' = br\<lparr>clock := max (clock br) (tm_due t),
                   timers := map (\<lambda>u. if tm_id u = tm_id t
                                       then u\<lparr>tm_due := tm_due u + tm_period u\<rparr> else u)
                               (timers br)\<rparr>"
  using assms by (auto simp: fire_def split: option.splits dest: earliest_member)

lemma fire_single:
  "timers br = [t] \<Longrightarrow>
   fire br = Some (t, br\<lparr>clock := max (clock br) (tm_due t),
                         timers := [t\<lparr>tm_due := tm_due t + tm_period t\<rparr>]\<rparr>)"
  by (simp add: fire_def)

lemma fire_again:
  assumes "fire br = Some (t, br')"
  shows "fire br' \<noteq> None"
proof -
  from fire_Some [OF assms] have "timers br' \<noteq> []" by auto
  then show ?thesis
    by (simp add: fire_def earliest_None split: option.splits)
qed

lemma sendGPSUpdate_request:
  "has_geolocation e \<Longrightarrow> sendGPSUpdate e (Some tr) = ([], Some (tr, tracking_options))"
  by (simp add: sendGPSUpdate_def)

lemma tick_log_single:
  assumes "has_geolocation e"
  shows "timers br = [t] \<Longrightarrow> clock br \<le> tm_due t \<Longrightarrow>
     tick_log e n br
       = map (\<lambda>k. (tm_due t + tm_period t * k, [], Some (tm_trip t, tracking_options))) [0..<n]"
proof (induction n arbitrary: br t)
  case 0
  then show ?case by simp
next
  case (Suc n)
  let ?t' = "t\<lparr>tm_due := tm_due t + tm_period t\<rparr>"
  let ?br' = "br\<lparr>clock := max (clock br) (tm_due t), timers := [?t']\<rparr>"
  have tick: "timer_tick e br = Some (?br', [], Some (tm_trip t, tracking_options))"
    using Suc.prems(1) assms by (simp add: timer_tick_def fire_single sendGPSUpdate_request)
  have c: "clock ?br' = tm_due t"
    using Suc.prems(2) by simp
  have "tick_log e n ?br'
      = map (\<lambda>k. (tm_due ?t' + tm_period ?t' * k, [], Some (tm_trip ?t', tracking_options))) [0..<n]"
    by (rule Suc.IH) (simp_all add: Suc.prems)
  then have "tick_log e n ?br'
      = map (\<lambda>k. (tm_due t + tm_period t * Suc k, [], Some (tm_trip t, tracking_options))) [0..<n]"
    by (simp add: algebra_simps)
  with tick c have "tick_log e (Suc n) br
      = (tm_due t, [], Some (tm_trip t, tracking_options))
        # map (\<lambda>k. (tm_due t + tm_period t * Suc k, [], Some (tm_trip t, tracking_options))) [0..<n]"
    by simp
  also have "\<dots> = map (\<lambda>k. (tm_due t + tm_period t * k, [], Some (tm_trip t, tracking_options))) [0..<Suc n]"
    by (simp add: upt_conv_Cons map_Suc_upt [symmetric] del: upt_Suc)
  finally show ?case .
qed

lemma tracking_effect_active:
  assumes "timers br = []" "activeTrip st = Some tr"
  shows "tracking_effect e br st
       = (br\<lparr>timers := [\<lparr>tm_id = next_handle br, tm_period = 5000, tm_due = clock br + 5000,
                          tm_trip = tr\<rparr>],
              next_handle := next_handle br + 1\<rparr>,
          st\<lparr>gpsInterval := Some (next_handle br), effect_cleanup := Some (next_handle br)\<rparr>,
          sendGPSUpdate e (Some tr))"
  using assms
  by (cases "effect_cleanup st") (simp_all add: tracking_effect_def setInterval_def clearInterval_def)

text \<open>
  C7. A trip becomes active in a browser with geolocation and no interval registered.
  The tracking effect then calls \<^verbatim>\<open>sendGPSUpdate\<close> at once, which requests a position with
  a timeout of 5000 ms and \<^verbatim>\<open>maximumAge\<close> 0, and registers an interval whose \<open>k\<close>-th
  tick, for every \<open>k \<ge> 1\<close>, fires \<open>5000 * k\<close> ms after the start and makes the same
  request for the same trip.
\<close>

theorem tracking_schedule:
  assumes "has_geolocation e" and "timers br = []" and "activeTrip st = Some tr"
  shows "snd (snd (tracking_effect e br st)) = ([], Some (tr, tracking_options))
       \<and> tick_log e n (fst (tracking_effect e br st))
           = map (\<lambda>k. (clock br + 5000 * (k + 1), [], Some (tr, tracking_options))) [0..<n]"
proof -
  let ?t = "\<lparr>tm_id = next_handle br, tm_period = 5000, tm_due = clock br + 5000, tm_trip = tr\<rparr>"
  let ?br = "br\<lparr>timers := [?t], next_handle := next_handle br + 1\<rparr>"
  have "tick_log e n ?br
      = map (\<lambda>k. (tm_due ?t + tm_period ?t * k, [], Some (tm_trip ?t, tracking_options))) [0..<n]"
    by (rule tick_log_single [OF assms(1)]) simp_all
  then have "tick_log e n ?br
      = map (\<lambda>k. (clock br + 5000 * (k + 1), [], Some (tr, tracking_options))) [0..<n]"
    by (simp add: algebra_simps)
  then show ?thesis
    by (simp add: tracking_effect_active [OF assms(2,3)] sendGPSUpdate_request [OF assms(1)])
qed

theorem tracking_schedule_witness:
  "snd (snd (tracking_effect (driver_env 1000 ''gps-1'') browser_idle dashboard_driving))
     = ([], Some (active1, \<lparr>enableHighAccuracy = True, timeout = 5000, maximumAge = 0\<rparr>))
   \<and> map fst (tick_log (driver_env 1000 ''gps-1'') 3
        (fst (tracking_effect (driver_env 1000 ''gps-1'') browser_idle dashboard_driving)))
     = [6000, 11000, 16000]"
proof -
  have h1: "has_geolocation (driver_env 1000 ''gps-1'')" by (simp add: driver_env_def)
  have h2: "timers browser_idle = []" by (simp add: browser_idle_def)
  have h3: "activeTrip dashboard_driving = Some active1"
    by (simp add: dashboard_driving_def dashboard_idle_def)
  have u: "[0..<3] = [0, 1, 2]" by (simp add: upt_conv_Cons)
  have c: "clock browser_idle = 1000" by (simp add: browser_idle_def)
  from tracking_schedule [OF h1 h2 h3, of 3] show ?thesis
    by (simp add: u c)
qed

text \<open>
  C8. A tick fires and its position acquisition fails. The failure is shown as a
  destructive toast (``Location Error'', or ``Location Not Supported'' when the browser
  has no geolocation), the tables and the state of the dashboard are unchanged, and the
  scheduler keeps running: the timer that fired is due again one period later, and the
  next tick fires.
\<close>

theorem failed_fix_keeps_tracking:
  assumes "fire br = Some (t, br')"
  shows "tracking_tick e db br st failed
       = Some (db, br', st,
           if has_geolocation e then
             [console_error ''Geolocation error'',
              toast ''Location Error''
                ''Could not get your location. Please enable location services.'' True]
           else
             [toast ''Location Not Supported''
                ''Your device doesn't support location tracking.'' True])
       \<and> timer_tick e' br' \<noteq> None
       \<and> tracking_tick e' db br' st acq \<noteq> None
       \<and> find (\<lambda>u. tm_id u = tm_id t) (timers br')
           = map_option (\<lambda>u. u\<lparr>tm_due := tm_due u + tm_period u\<rparr>)
               (find (\<lambda>u. tm_id u = tm_id t) (timers br))"
proof -
  have 1: "tracking_tick e db br st failed
       = Some (db, br', st,
           if has_geolocation e then
             [console_error ''Geolocation error'',
              toast ''Location Error''
                ''Could not get your location. Please enable location services.'' True]
           else
             [toast ''Location Not Supported''
                ''Your device doesn't support location tracking.'' True])"
    using assms
    by (simp add: tracking_tick_def gps_update_cycle_def sendGPSUpdate_def position_error_def)
  from fire_again [OF assms] obtain t2 br2 where f2: "fire br' = Some (t2, br2)"
    by auto
  then have 2: "timer_tick e' br' \<noteq> None"
    by (simp add: timer_tick_def)
  from f2 have 3: "tracking_tick e' db br' st acq \<noteq> None"
    by (simp add: tracking_tick_def split: prod.splits)
  have "find (\<lambda>u. tm_id u = tm_id t)
          (map (\<lambda>u. if tm_id u = tm_id t then u\<lparr>tm_due := tm_due u + tm_period u\<rparr> else u) ts)
       = map_option (\<lambda>u. u\<lparr>tm_due := tm_due u + tm_period u\<rparr>) (find (\<lambda>u. tm_id u = tm_id t) ts)"
    for ts
    by (induction ts) auto
  with fire_Some(2) [OF assms] have 4: "find (\<lambda>u. tm_id u = tm_id t) (timers br')
           = map_option (\<lambda>u. u\<lparr>tm_due := tm_due u + tm_period u\<rparr>)
               (find (\<lambda>u. tm_id u = tm_id t) (timers br))"
    by simp
  from 1 2 3 4 show ?thesis by blast
qed

theorem failed_fix_keeps_tracking_witness:
  "tracking_tick (driver_env 6000 ''gps-2'') db_tracking browser_tracking dashboard_driving failed
     = Some (db_tracking,
         browser_tracking\<lparr>clock := 6000, timers := [timer1\<lparr>tm_due := 11000\<rparr>]\<rparr>,
         dashboard_driving,
         [console_error ''Geolocation error'',
          toast ''Location Error''
            ''Could not get your location. Please enable location services.'' True])
   \<and> timer_tick (driver_env 11000 ''gps-2'')
        (browser_tracking\<lparr>clock := 6000, timers := [timer1\<lparr>tm_due := 11000\<rparr>]\<rparr>) \<noteq> None"
proof -
  have h1: "has_geolocation (driver_env 6000 ''gps-2'')" by (simp add: driver_env_def)
  have h2: "fire browser_tracking
    = Some (timer1, browser_tracking\<lparr>clock := 6000, timers := [timer1\<lparr>tm_due := 11000\<rparr>]\<rparr>)"
    by (simp add: fire_def browser_tracking_def timer1_def)
  from failed_fix_keeps_tracking [OF h2, of "driver_env 6000 ''gps-2''" db_tracking
      dashboard_driving "driver_env 11000 ''gps-2''"] h1
  show ?thesis
    by simp
qed

lemma handleStartTrip_ok:
  assumes "start_ok e db render" and "auth_uid e = Some uid"
  shows "handleStartTrip e db render st
           = (db\<lparr>trips := trips db @ [started_trip e render uid]\<rparr>,
              st\<lparr>activeTrip := Some (activeTrip_of
                     (db\<lparr>trips := trips db @ [started_trip e render uid]\<rparr>)
                     (started_trip e render uid))\<rparr>,
              [toast ''Trip Started!'' ''GPS tracking is now active.'' False])"
  using assms
  by (simp add: start_ok_def handleStartTrip_def getUser_def insert_trip_def started_trip_def Let_def)

lemma active_trips_after_start:
  "active_trips_of uid (db\<lparr>trips := trips db @ [started_trip e st uid]\<rparr>)
     = active_trips_of uid db @ [started_trip e st uid]"
  by (simp add: active_trips_of_def started_trip_def)

lemma filter_completed:
  assumes "map t_id (filter (\<lambda>t. t_driver_id t = uid \<and> t_status t = active) ts) = [tid]"
  shows "filter (\<lambda>t. t_driver_id t = uid \<and> t_status t = active)
           (map (\<lambda>t. if t_id t = tid \<and> Some uid = Some (t_driver_id t)
                      then t\<lparr>t_status := completed, t_completed_at := c\<rparr> else t) ts) = []"
proof -
  have "\<forall>t \<in> set ts. t_driver_id t = uid \<and> t_status t = active \<longrightarrow> t_id t = tid"
  proof (intro ballI impI)
    fix t assume "t \<in> set ts" "t_driver_id t = uid \<and> t_status t = active"
    then have "t_id t \<in> set (map t_id (filter (\<lambda>t. t_driver_id t = uid \<and> t_status t = active) ts))"
      by auto
    with assms show "t_id t = tid" by simp
  qed
  then show ?thesis
    by (auto simp: filter_empty_conv)
qed

lemma handleEndTrip_done:
  assumes "online e" and "activeTrip st = Some tr"
  shows "handleEndTrip e db st
       = (db\<lparr>trips := map (\<lambda>t. if t_id t = at_id tr \<and> auth_uid e = Some (t_driver_id t)
                       then t\<lparr>t_status := completed, t_completed_at := Some (client_now e)\<rparr>
                       else t) (trips db)\<rparr>,
          st\<lparr>activeTrip := None, gpsUpdateCount := 0\<rparr>,
          [toast ''Trip Completed!'' ''GPS tracking has been stopped.'' False])"
  using assms by (simp add: handleEndTrip_def complete_trip_def)

lemma handleEndTrip_clears:
  assumes "auth_uid e0 = Some uid" and "online e0" and "activeTrip st0 = Some tr"
    and "in_sync uid db0 st0"
  shows "activeTrip (fst (snd (handleEndTrip e0 db0 st0))) = None"
    and "active_trips_of uid (fst (handleEndTrip e0 db0 st0)) = []"
proof -
  from assms(3,4)
  have "map t_id (filter (\<lambda>t. t_driver_id t = uid \<and> t_status t = active) (trips db0)) = [at_id tr]"
    by (simp add: in_sync_def active_trips_of_def)
  from filter_completed [OF this, of "Some (client_now e0)"] assms(1)
  show "active_trips_of uid (fst (handleEndTrip e0 db0 st0)) = []"
    by (simp add: handleEndTrip_done [OF assms(2,3)] active_trips_of_def)
  show "activeTrip (fst (snd (handleEndTrip e0 db0 st0))) = None"
    by (simp add: handleEndTrip_done [OF assms(2,3)])
qed

text \<open>
  C1, as the code has it. \<^verbatim>\<open>handleStartTrip\<close> makes no check for an active trip of the
  driver, the table has no such constraint, and there is no conflict error. For the session
  of the driver: whenever the render of the handler has a selection, the backend is within
  reach and the keys accept the insert, \<^verbatim>\<open>handleStartTrip\<close> succeeds with the toast
  ``Trip Started!'' and adds a new active trip to those the driver already has. What the
  dashboard does is to leave the start form out of a render whose \<^verbatim>\<open>activeTrip\<close> is set: a
  click there changes nothing and reports nothing. And when \<^verbatim>\<open>handleEndTrip\<close> completes on
  a dashboard whose \<^verbatim>\<open>activeTrip\<close> is the only active trip of the driver, \<^verbatim>\<open>activeTrip\<close> is
  null and the driver has no active trip; a \<^verbatim>\<open>handleStartTrip\<close> that then succeeds leaves
  exactly the new trip active.
\<close>

theorem start_has_no_conflict_check:
  "(activeTrip r \<noteq> None \<longrightarrow> start_click e db r st = (db, st, []))
   \<and> (auth_uid e = Some uid \<and> start_ok e db render \<longrightarrow>
        handleStartTrip e db render st
          = (db\<lparr>trips := trips db @ [started_trip e render uid]\<rparr>,
             st\<lparr>activeTrip := Some (activeTrip_of
                    (db\<lparr>trips := trips db @ [started_trip e render uid]\<rparr>)
                    (started_trip e render uid))\<rparr>,
             [toast ''Trip Started!'' ''GPS tracking is now active.'' False])
        \<and> active_trips_of uid (db\<lparr>trips := trips db @ [started_trip e render uid]\<rparr>)
            = active_trips_of uid db @ [started_trip e render uid])
   \<and> (auth_uid e0 = Some uid \<and> online e0 \<and> activeTrip st0 = Some tr \<and> in_sync uid db0 st0 \<longrightarrow>
        activeTrip (fst (snd (handleEndTrip e0 db0 st0))) = None
        \<and> active_trips_of uid (fst (handleEndTrip e0 db0 st0)) = []
        \<and> (auth_uid e = Some uid \<and> start_ok e (fst (handleEndTrip e0 db0 st0)) render \<longrightarrow>
             active_trips_of uid
               (fst (handleStartTrip e (fst (handleEndTrip e0 db0 st0)) render st))
               = [started_trip e render uid]
             \<and> snd (snd (handleStartTrip e (fst (handleEndTrip e0 db0 st0)) render st))
               = [toast ''Trip Started!'' ''GPS tracking is now active.'' False]))"
proof (intro conjI impI)
  assume "activeTrip r \<noteq> None"
  then show "start_click e db r st = (db, st, [])"
    by (auto simp: start_click_def)
next
  assume a: "auth_uid e = Some uid \<and> start_ok e db render"
  then show "handleStartTrip e db render st
          = (db\<lparr>trips := trips db @ [started_trip e render uid]\<rparr>,
             st\<lparr>activeTrip := Some (activeTrip_of
                    (db\<lparr>trips := trips db @ [started_trip e render uid]\<rparr>)
                    (started_trip e render uid))\<rparr>,
             [toast ''Trip Started!'' ''GPS tracking is now active.'' False])"
    by (simp add: handleStartTrip_ok)
  show "active_trips_of uid (db\<lparr>trips := trips db @ [started_trip e render uid]\<rparr>)
            = active_trips_of uid db @ [started_trip e render uid]"
    by (rule active_trips_after_start)
next
  assume b: "auth_uid e0 = Some uid \<and> online e0 \<and> activeTrip st0 = Some tr \<and> in_sync uid db0 st0"
  then show "activeTrip (fst (snd (handleEndTrip e0 db0 st0))) = None"
    using handleEndTrip_clears(1) by blast
  from b show none: "active_trips_of uid (fst (handleEndTrip e0 db0 st0)) = []"
    using handleEndTrip_clears(2) by blast
  assume c: "auth_uid e = Some uid \<and> start_ok e (fst (handleEndTrip e0 db0 st0)) render"
  then have h: "handleStartTrip e (fst (handleEndTrip e0 db0 st0)) render st
      = ((fst (handleEndTrip e0 db0 st0))\<lparr>trips := trips (fst (handleEndTrip e0 db0 st0))
             @ [started_trip e render uid]\<rparr>,
         st\<lparr>activeTrip := Some (activeTrip_of
               ((fst (handleEndTrip e0 db0 st0))\<lparr>trips := trips (fst (handleEndTrip e0 db0 st0))
                   @ [started_trip e render uid]\<rparr>)
               (started_trip e render uid))\<rparr>,
         [toast ''Trip Started!'' ''GPS tracking is now active.'' False])"
    by (simp add: handleStartTrip_ok)
  show "active_trips_of uid (fst (handleStartTrip e (fst (handleEndTrip e0 db0 st0)) render st))
               = [started_trip e render uid]"
    by (simp add: h active_trips_after_start none)
  show "snd (snd (handleStartTrip e (fst (handleEndTrip e0 db0 st0)) render st))
               = [toast ''Trip Started!'' ''GPS tracking is now active.'' False]"
    by (simp add: h)
qed

theorem start_has_no_conflict_check_witness:
  "start_click (driver_env 8000 ''unused'') db_started dashboard_driving dashboard_driving
     = (db_started, dashboard_driving, [])
   \<and> active_trips_of ''driver-1'' db_two_trips = active_trips_of ''driver-1'' db_started @ [trip2]
   \<and> active_trips_of ''driver-1''
        (fst (handleEndTrip (driver_env 8000 ''unused'') db_started dashboard_driving)) = []
   \<and> map t_id (active_trips_of ''driver-1''
        (fst (handleStartTrip (driver_env 9000 ''trip-2'')
           (fst (handleEndTrip (driver_env 8000 ''unused'') db_started dashboard_driving))
           dashboard_idle dashboard_idle))) = [''trip-2'']"
proof -
  let ?end = "driver_env 8000 ''unused''"
  let ?next = "driver_env 9000 ''trip-2''"
  let ?again = "driver_env 2000 ''trip-2''"
  let ?db2 = "db_idle\<lparr>trips := [trip1\<lparr>t_status := completed, t_completed_at := Some 8000\<rparr>]\<rparr>"
  have g: "activeTrip dashboard_driving \<noteq> None"
    by (simp add: dashboard_driving_def dashboard_idle_def)
  have n: "auth_uid ?again = Some ''driver-1'' \<and> start_ok ?again db_started dashboard_idle"
    by (simp add: start_ok_def driver_env_def db_started_def db_idle_def trip1_def
        dashboard_idle_def)
  have n2: "started_trip ?again dashboard_idle ''driver-1'' = trip2"
    "db_started\<lparr>trips := trips db_started @ [trip2]\<rparr> = db_two_trips"
    by (simp_all add: started_trip_def driver_env_def db_started_def db_two_trips_def db_idle_def
        trip2_def dashboard_idle_def)
  have h1: "auth_uid ?end = Some ''driver-1'' \<and> online ?end
      \<and> activeTrip dashboard_driving = Some active1
      \<and> in_sync ''driver-1'' db_started dashboard_driving"
    by (simp add: in_sync_def active_trips_of_def driver_env_def db_started_def db_idle_def
        trip1_def dashboard_driving_def dashboard_idle_def active1_def)
  have h2: "fst (handleEndTrip ?end db_started dashboard_driving) = ?db2"
    by (simp add: handleEndTrip_def complete_trip_def driver_env_def db_started_def db_idle_def
        trip1_def dashboard_driving_def dashboard_idle_def active1_def)
  have h3: "auth_uid ?next = Some ''driver-1'' \<and> start_ok ?next ?db2 dashboard_idle"
    by (simp add: start_ok_def driver_env_def db_idle_def trip1_def dashboard_idle_def)
  from start_has_no_conflict_check [of dashboard_driving ?end db_started dashboard_driving]
    g
  have 1: "start_click ?end db_started dashboard_driving dashboard_driving
     = (db_started, dashboard_driving, [])"
    by blast
  from start_has_no_conflict_check [of _ ?again db_started _ "''driver-1''" dashboard_idle] n
  have "active_trips_of ''driver-1''
          (db_started\<lparr>trips := trips db_started @ [started_trip ?again dashboard_idle ''driver-1'']\<rparr>)
        = active_trips_of ''driver-1'' db_started @ [started_trip ?again dashboard_idle ''driver-1'']"
    by blast
  then have 2: "active_trips_of ''driver-1'' db_two_trips
      = active_trips_of ''driver-1'' db_started @ [trip2]"
    by (simp only: n2)
  from start_has_no_conflict_check [of _ ?next _ dashboard_idle "''driver-1''" dashboard_idle
      ?end dashboard_driving active1 db_started] h1 h3 [folded h2]
  have "active_trips_of ''driver-1'' (fst (handleEndTrip ?end db_started dashboard_driving)) = []"
    and "active_trips_of ''driver-1''
           (fst (handleStartTrip ?next (fst (handleEndTrip ?end db_started dashboard_driving))
              dashboard_idle dashboard_idle))
         = [started_trip ?next dashboard_idle ''driver-1'']"
    by blast+
  with 1 2 show ?thesis
    by (simp add: started_trip_def driver_env_def)
qed

text \<open>
  C1 as the specification states it fails. Driver 1 has the active trip 1; a dashboard
  mounted while the backend was out of reach keeps \<^verbatim>\<open>activeTrip\<close> null and offers the start
  form; starting there succeeds with the toast ``Trip Started!'' and leaves the driver with
  two active trips. The same happens on a dashboard that mirrors the table, when the start
  button of one render is clicked twice: the second click runs after the first has set
  \<^verbatim>\<open>activeTrip\<close>, and it starts a second trip.
\<close>

theorem second_active_trip_starts:
  "active_trips_of ''driver-1'' db_started = [trip1]
   \<and> checkActiveTrip ((driver_env 1500 ''unused'')\<lparr>online := False\<rparr>) db_started dashboard_idle
       = dashboard_idle
   \<and> start_click (driver_env 2000 ''trip-2'') db_started dashboard_idle dashboard_idle
       = (db_two_trips,
          dashboard_idle\<lparr>activeTrip := Some \<lparr>at_id = ''trip-2'', at_bus_number = ''12'',
             at_route_name = ''Downtown Loop'', at_started_at = 2000\<rparr>\<rparr>,
          [toast ''Trip Started!'' ''GPS tracking is now active.'' False])
   \<and> active_trips_of ''driver-1'' db_two_trips = [trip1, trip2]
   \<and> in_sync ''driver-1'' db_idle dashboard_idle
   \<and> start_click (driver_env 1000 ''trip-1'') db_idle dashboard_idle dashboard_idle
       = (db_started, dashboard_driving,
          [toast ''Trip Started!'' ''GPS tracking is now active.'' False])
   \<and> start_click (driver_env 2000 ''trip-2'') db_started dashboard_idle dashboard_driving
       = (db_two_trips,
          dashboard_idle\<lparr>activeTrip := Some \<lparr>at_id = ''trip-2'', at_bus_number = ''12'',
             at_route_name = ''Downtown Loop'', at_started_at = 2000\<rparr>\<rparr>,
          [toast ''Trip Started!'' ''GPS tracking is now active.'' False])"
  by (simp add: active_trips_of_def in_sync_def checkActiveTrip_def start_click_def
      handleStartTrip_def getUser_def insert_trip_def activeTrip_of_def or_else_def
      trip_bus_number_def trip_route_name_def Let_def driver_env_def db_started_def
      db_two_trips_def db_idle_def trip1_def trip2_def dashboard_idle_def dashboard_driving_def
      active1_def)

text \<open>
  C2, as the code has it. Once \<^verbatim>\<open>handleEndTrip\<close> has completed, \<^verbatim>\<open>activeTrip\<close> is null and
  the stored samples are as before; a call of \<^verbatim>\<open>sendGPSUpdate\<close> in that state requests no
  position, inserts nothing, so that the latest sample of the trip is unchanged, and
  reports nothing: no error value, no toast. The tracking effect clears the interval, so
  that no further tick fires.
\<close>

theorem no_submission_after_end:
  assumes "online e" and "activeTrip st = Some tr"
    and "handleEndTrip e db st = (db', st', ns)"
    and "\<forall>t \<in> set (timers br). tm_id t \<noteq> 0 \<and> effect_cleanup st = Some (tm_id t)"
  shows "activeTrip st' = None
       \<and> gps_updates db' = gps_updates db
       \<and> sendGPSUpdate e' (activeTrip st') = ([], None)
       \<and> gps_update_cycle e' db' st' (activeTrip st') acq = (db', st', [])
       \<and> latest_gps (fst (gps_update_cycle e' db' st' (activeTrip st') acq)) (at_id tr)
           = latest_gps db (at_id tr)
       \<and> timers (fst (tracking_effect e' br st')) = []
       \<and> timer_tick e' (fst (tracking_effect e' br st')) = None"
proof -
  from handleEndTrip_done [OF assms(1,2), of db] assms(3)
  have a: "activeTrip st' = None" and g: "gps_updates db' = gps_updates db"
    and c: "effect_cleanup st' = effect_cleanup st"
    by auto
  from a have s: "sendGPSUpdate e' (activeTrip st') = ([], None)"
    by (simp add: sendGPSUpdate_def)
  then have u: "gps_update_cycle e' db' st' (activeTrip st') acq = (db', st', [])"
    by (simp add: gps_update_cycle_def)
  have l: "latest_gps (fst (gps_update_cycle e' db' st' (activeTrip st') acq)) (at_id tr)
           = latest_gps db (at_id tr)"
    by (simp add: u latest_gps_def g)
  have t: "timers (fst (tracking_effect e' br st')) = []"
  proof (cases "effect_cleanup st")
    case None
    with assms(4) have "timers br = []"
      by (cases "timers br") auto
    with a c None show ?thesis
      by (simp add: tracking_effect_def clearInterval_def Let_def split: option.splits)
  next
    case (Some h)
    show ?thesis
    proof (cases "timers br = []")
      case True
      with a c Some show ?thesis
        by (simp add: tracking_effect_def clearInterval_def Let_def split: option.splits)
    next
      case False
      then obtain t where "t \<in> set (timers br)"
        by (cases "timers br") auto
      with assms(4) Some have "h \<noteq> 0"
        by auto
      moreover from assms(4) Some have "filter (\<lambda>t. tm_id t \<noteq> h) (timers br) = []"
        by (auto simp: filter_empty_conv)
      ultimately show ?thesis
        using a c Some
        by (simp add: tracking_effect_def clearInterval_def Let_def split: option.splits)
    qed
  qed
  then have "timer_tick e' (fst (tracking_effect e' br st')) = None"
    by (simp add: timer_tick_def fire_def)
  with a g s u l t show ?thesis by blast
qed

theorem no_submission_after_end_witness:
  "handleEndTrip (driver_env 8000 ''unused'') db_tracking
       (dashboard_driving\<lparr>gpsInterval := Some 1, effect_cleanup := Some 1\<rparr>)
     = (db_ended, dashboard_idle\<lparr>gpsInterval := Some 1, effect_cleanup := Some 1\<rparr>,
        [toast ''Trip Completed!'' ''GPS tracking has been stopped.'' False])
   \<and> gps_update_cycle (driver_env 9000 ''gps-2'') db_ended
        (dashboard_idle\<lparr>gpsInterval := Some 1, effect_cleanup := Some 1\<rparr>) None
        (acquired fix_no_extras)
     = (db_ended, dashboard_idle\<lparr>gpsInterval := Some 1, effect_cleanup := Some 1\<rparr>, [])
   \<and> latest_gps db_ended ''trip-1'' = Some sample1
   \<and> timers (fst (tracking_effect (driver_env 9000 ''gps-2'') browser_tracking
        (dashboard_idle\<lparr>gpsInterval := Some 1, effect_cleanup := Some 1\<rparr>))) = []"
proof -
  let ?e = "driver_env 8000 ''unused''"
  let ?st = "dashboard_driving\<lparr>gpsInterval := Some 1, effect_cleanup := Some 1\<rparr>"
  let ?st' = "dashboard_idle\<lparr>gpsInterval := Some 1, effect_cleanup := Some 1\<rparr>"
  have h1: "online ?e" by (simp add: driver_env_def)
  have h2: "activeTrip ?st = Some active1"
    by (simp add: dashboard_driving_def dashboard_idle_def)
  have h3: "handleEndTrip ?e db_tracking ?st
     = (db_ended, ?st', [toast ''Trip Completed!'' ''GPS tracking has been stopped.'' False])"
    by (simp add: handleEndTrip_def complete_trip_def driver_env_def db_tracking_def
        db_ended_def db_idle_def trip1_def dashboard_driving_def dashboard_idle_def active1_def)
  have h4: "\<forall>t \<in> set (timers browser_tracking).
              tm_id t \<noteq> 0 \<and> effect_cleanup ?st = Some (tm_id t)"
    by (simp add: browser_tracking_def timer1_def dashboard_driving_def dashboard_idle_def)
  have l: "latest_gps db_ended ''trip-1'' = Some sample1"
    by (simp add: latest_gps_def db_ended_def db_idle_def sample1_def)
  have i: "activeTrip ?st' = None"
    by (simp add: dashboard_idle_def)
  from no_submission_after_end [OF h1 h2 h3 h4, of "driver_env 9000 ''gps-2''" "acquired fix_no_extras"]
  have "gps_update_cycle (driver_env 9000 ''gps-2'') db_ended ?st' (activeTrip ?st')
          (acquired fix_no_extras) = (db_ended, ?st', [])"
    and "timers (fst (tracking_effect (driver_env 9000 ''gps-2'') browser_tracking ?st')) = []"
    by blast+
  with h3 l i show ?thesis by simp
qed

text \<open>
  C2 as the specification states it fails: after the end of trip 1 a call of
  \<^verbatim>\<open>sendGPSUpdate\<close> reports no error at all, and the success callback of a position request
  made before the end, which keeps the trip in its closure, is accepted by the insert
  (its policy looks at the driver of the trip, not at its status): the latest sample of the
  completed trip changes.
\<close>

theorem ended_trip_accepts_sample:
  "handleEndTrip (driver_env 8000 ''unused'') db_tracking dashboard_driving
     = (db_ended, dashboard_idle,
        [toast ''Trip Completed!'' ''GPS tracking has been stopped.'' False])
   \<and> gps_update_cycle (driver_env 9000 ''gps-2'') db_ended dashboard_idle
        (activeTrip dashboard_idle) (acquired fix_no_extras)
     = (db_ended, dashboard_idle, [])
   \<and> latest_gps db_ended ''trip-1'' = Some sample1
   \<and> position_success (driver_env 9000 ''gps-2'') db_ended dashboard_idle active1 fix_no_extras
     = (db_ended\<lparr>gps_updates := [sample1, sample2\<lparr>g_created_at := 9000\<rparr>]\<rparr>,
        dashboard_idle\<lparr>gpsUpdateCount := 1\<rparr>, [])
   \<and> latest_gps (db_ended\<lparr>gps_updates := [sample1, sample2\<lparr>g_created_at := 9000\<rparr>]\<rparr>) ''trip-1''
     = Some (sample2\<lparr>g_created_at := 9000\<rparr>)"
  by (simp add: handleEndTrip_def complete_trip_def gps_update_cycle_def sendGPSUpdate_def
      position_success_def insert_gps_def numeric_fits_def pg_round_def latest_gps_def
      driver_env_def db_tracking_def db_ended_def db_idle_def trip1_def sample1_def sample2_def
      dashboard_driving_def dashboard_idle_def active1_def fix_no_extras_def)

end
